theory Spec2Isabelle
  imports Complex_Main
begin

section \<open>Gesture-driven feed: the swipe debouncer and the feed controller\<close>

text \<open>
  The repository holds two variants of one React application: \<^verbatim>\<open>src/App.tsx\<close> pages
  through four colour panels, the second file through four videos. Each has a component
  \<^verbatim>\<open>GestureController\<close>, whose per-frame callback \<^verbatim>\<open>predictWebcam\<close> turns wrist
  positions into swipes, and an application component whose \<^verbatim>\<open>handleSwipe\<close> moves the
  active index. Both are embedded here with explicit state passing: the mutable refs
  and closure variables are a record, a call returns the new record together with what
  it sent out (the calls of \<^verbatim>\<open>onSwipe\<close>, the call of \<^verbatim>\<open>scrollTo\<close>).

  JavaScript numbers that hold coordinates are modelled as \<^typ>\<open>real\<close>, indices and pixel
  counts as \<^typ>\<open>int\<close>; what is proved rests on the order of the tests in the code,
  not on how a difference is rounded. Drawing on the canvas, the border colour and
  console output are left out: no value read by the code below depends on them.
\<close>

subsection \<open>Data\<close>

text \<open>The argument of \<^verbatim>\<open>onSwipe\<close>: the string literals \<^verbatim>\<open>'NEXT' | 'PREV'\<close>.\<close>

datatype direction = NEXT | PREV

text \<open>The only exception the embedded code can raise by itself: a property read on
  \<^verbatim>\<open>undefined\<close>.\<close>

datatype error = TypeError

text \<open>
  The mutable cells of \<^verbatim>\<open>GestureController\<close>: the refs \<^verbatim>\<open>lastYRef\<close> (\<^verbatim>\<open>null\<close> is
  \<open>None\<close>) and \<^verbatim>\<open>isCooldownRef\<close>, which live as long as the component; the closure
  variable \<^verbatim>\<open>isMounted\<close> of the effect run whose \<^verbatim>\<open>predictWebcam\<close> is being called;
  and the delays in milliseconds of the callbacks handed to \<^verbatim>\<open>setTimeout\<close> that have
  not run yet, oldest first.
\<close>

record controller =
  lastYRef :: "real option"
  isCooldownRef :: bool
  isMounted :: bool
  timeouts :: "nat list"

text \<open>
  What one animation frame finds: whether the recogniser and the two element refs are
  set, the width of the video, whether the canvas gives a 2D context, and
  \<^verbatim>\<open>results.landmarks\<close>. A hand is the list of its landmarks; only the field \<^verbatim>\<open>y\<close> of a
  landmark is read, so a landmark is its \<^verbatim>\<open>y\<close>.
\<close>

type_synonym hand = "real list"

record frame =
  gestureRecognizer :: bool
  videoRef :: bool
  canvasRef :: bool
  videoWidth :: int
  ctx :: bool
  landmarks :: "hand list"

text \<open>What a call of \<^verbatim>\<open>predictWebcam\<close> sent out: the calls of
  \<^verbatim>\<open>latestOnSwipe.current\<close> in order, and whether \<^verbatim>\<open>requestAnimationFrame\<close> was called.\<close>

record effects =
  swipes :: "direction list"
  requested :: bool

text \<open>The two files differ in the delay of the cooldown timer.\<close>

datatype variant = ColorPanels | VideoFeed

fun cooldownMs :: "variant \<Rightarrow> nat" where
  "cooldownMs ColorPanels = 1000"
| "cooldownMs VideoFeed = 1200"

text \<open>The local constant \<^verbatim>\<open>const threshold = 0.08\<close> of \<^verbatim>\<open>predictWebcam\<close>.\<close>

definition threshold :: real where
  "threshold = 0.08"

subsection \<open>The gesture controller\<close>

text \<open>\<^verbatim>\<open>triggerCooldown\<close>: lock, and schedule the callback below.\<close>

definition triggerCooldown :: "variant \<Rightarrow> controller \<Rightarrow> controller" where
  "triggerCooldown v s = s\<lparr>isCooldownRef := True, timeouts := timeouts s @ [cooldownMs v]\<rparr>"

text \<open>
  The callback \<^verbatim>\<open>triggerCooldown\<close> hands to \<^verbatim>\<open>setTimeout\<close>. The \<^verbatim>\<open>isMounted\<close> it
  tests is the closure variable of the effect run that scheduled it, here the argument
  \<open>mounted\<close>. Every run of the effect (it runs again when \<open>debugMode\<close> changes) has
  a variable of its own, and the cleanup of a run sets that run's variable to false
  without cancelling its timer. So \<open>mounted\<close> is one flag and the field \<open>isMounted\<close>
  of the state, which the running loop tests, is another: a callback of a cleaned-up
  run can meet the loop of the next run, on the same refs.
\<close>

definition cooldownTimeout :: "bool \<Rightarrow> controller \<Rightarrow> controller" where
  "cooldownTimeout mounted s =
     (if \<not> mounted then s
      else s\<lparr>isCooldownRef := False, lastYRef := None\<rparr>)"

text \<open>The runtime running the oldest pending timer callback, \<open>mounted\<close> being the flag
  of the effect run that scheduled it.\<close>

definition fireTimeout :: "bool \<Rightarrow> controller \<Rightarrow> controller" where
  "fireTimeout mounted s =
     (case timeouts s of
        [] \<Rightarrow> s
      | _ # rest \<Rightarrow> cooldownTimeout mounted (s\<lparr>timeouts := rest\<rparr>))"

text \<open>
  The sample of a frame: \<^verbatim>\<open>results.landmarks[0][0].y\<close> when a hand was detected,
  nothing when \<^verbatim>\<open>results.landmarks.length\<close> is 0. A hand without landmarks makes
  \<^verbatim>\<open>hand[0]\<close> undefined, and reading \<^verbatim>\<open>wrist.y\<close> throws.
\<close>

definition wristY :: "hand list \<Rightarrow> error + real option" where
  "wristY lms =
     (case lms of
        [] \<Rightarrow> Inr None
      | hnd # _ \<Rightarrow>
          (case hnd of
             [] \<Rightarrow> Inl TypeError
           | wrist # _ \<Rightarrow> Inr (Some wrist)))"

text \<open>
  The body of \<^verbatim>\<open>predictWebcam\<close> under \<^verbatim>\<open>if (ctx && debugMode)\<close>, from the test of
  \<^verbatim>\<open>results.landmarks.length\<close> on, given the sample: the comparison with the
  baseline, the calls of \<^verbatim>\<open>onSwipe\<close>, and the assignment to \<^verbatim>\<open>lastYRef.current\<close>
  that ends either branch.
\<close>

definition swipeStep ::
  "variant \<Rightarrow> real option \<Rightarrow> controller \<Rightarrow> controller \<times> direction list" where
  "swipeStep v smp s =
     (case smp of
        None \<Rightarrow> (s\<lparr>lastYRef := None\<rparr>, [])
      | Some currY \<Rightarrow>
          (let (s1, evs) =
             (case lastYRef s of
                None \<Rightarrow> (s, [])
              | Some lastY \<Rightarrow>
                  if \<not> isCooldownRef s then
                    (let deltaY = currY - lastY in
                     if deltaY < - threshold then (triggerCooldown v s, [NEXT])
                     else if deltaY > threshold then (triggerCooldown v s, [PREV])
                     else (s, []))
                  else (s, []))
           in (s1\<lparr>lastYRef := Some currY\<rparr>, evs)))"

text \<open>
  \<^verbatim>\<open>predictWebcam\<close>, one call. \<open>debugMode\<close> is the prop the effect closes over
  (its truthiness). An exception leaves the refs as they were: the only throwing
  expression comes before every assignment.
\<close>

definition predictWebcam ::
  "variant \<Rightarrow> bool \<Rightarrow> frame \<Rightarrow> controller \<Rightarrow> error + (controller \<times> effects)" where
  "predictWebcam v debugMode f s =
     (if \<not> isMounted s then Inr (s, \<lparr>swipes = [], requested = False\<rparr>)
      else if gestureRecognizer f \<and> videoRef f \<and> canvasRef f then
        (if videoWidth f > 0 then
           (if ctx f \<and> debugMode then
              (case wristY (landmarks f) of
                 Inl e \<Rightarrow> Inl e
               | Inr smp \<Rightarrow>
                   (let (s', evs) = swipeStep v smp s
                    in Inr (s', \<lparr>swipes = evs, requested = True\<rparr>)))
            else Inr (s, \<lparr>swipes = [], requested = True\<rparr>))
         else Inr (s, \<lparr>swipes = [], requested = True\<rparr>))
      else Inr (s, \<lparr>swipes = [], requested = False\<rparr>))"

text \<open>The swipes a call sent out; a call that threw sent none.\<close>

definition swipesOf :: "error + (controller \<times> effects) \<Rightarrow> direction list" where
  "swipesOf r = (case r of Inl _ \<Rightarrow> [] | Inr (_, out) \<Rightarrow> swipes out)"

text \<open>
  The per-frame loop: \<^verbatim>\<open>predictWebcam\<close> runs again on the next frame exactly when it
  called \<^verbatim>\<open>requestAnimationFrame\<close>; an exception ends the loop. The result is the
  final state, all swipes sent, and the exception that ended the loop, if one did.
\<close>

fun frameLoop ::
  "variant \<Rightarrow> bool \<Rightarrow> frame list \<Rightarrow> controller
     \<Rightarrow> controller \<times> direction list \<times> error option" where
  "frameLoop v debugMode [] s = (s, [], None)"
| "frameLoop v debugMode (f # fs) s =
     (case predictWebcam v debugMode f s of
        Inl e \<Rightarrow> (s, [], Some e)
      | Inr (s', out) \<Rightarrow>
          if requested out then
            (let (s'', evs, err) = frameLoop v debugMode fs s'
             in (s'', swipes out @ evs, err))
          else (s', swipes out, None))"

text \<open>The debouncer alone on a sequence of samples.\<close>

fun swipeSteps ::
  "variant \<Rightarrow> real option list \<Rightarrow> controller \<Rightarrow> controller \<times> direction list" where
  "swipeSteps v [] s = (s, [])"
| "swipeSteps v (smp # smps) s =
     (let (s', evs) = swipeStep v smp s;
          (s'', evs') = swipeSteps v smps s'
      in (s'', evs @ evs'))"

subsection \<open>The feed controller\<close>

text \<open>
  The panel lists. Only their lengths are read by \<^verbatim>\<open>handleSwipe\<close>; an entry is kept as
  its \<^verbatim>\<open>id\<close> with its \<^verbatim>\<open>color\<close>, respectively its \<^verbatim>\<open>title\<close>.
\<close>

definition COLORS :: "(nat \<times> string) list" where
  "COLORS = [(1, ''#FF5733''), (2, ''#33FF57''), (3, ''#3357FF''), (4, ''#F333FF'')]"

definition VIDEOS :: "(nat \<times> string) list" where
  "VIDEOS = [(1, ''Big Buck Bunny''), (2, ''Elephants Dream''),
             (3, ''For Bigger Blazes''), (4, ''Tears of Steel'')]"

text \<open>What \<^verbatim>\<open>handleSwipe\<close> reads of the page: whether \<^verbatim>\<open>containerRef.current\<close> is set,
  and \<^verbatim>\<open>window.innerHeight\<close>.\<close>

record view =
  containerRef :: bool
  innerHeight :: int

text \<open>The argument of \<^verbatim>\<open>scrollTo\<close>.\<close>

record scrollToOptions =
  top_px :: int
  behavior :: string

text \<open>
  The updater \<^verbatim>\<open>handleSwipe\<close> passes to \<^verbatim>\<open>setActiveIndex\<close>, in \<^verbatim>\<open>src/App.tsx\<close>: from
  the previous index to the new one and the call of \<^verbatim>\<open>scrollTo\<close> it made, if any. The
  optional chaining \<^verbatim>\<open>containerRef.current?.scrollTo\<close> makes no call on an unset ref.
\<close>

definition handleSwipe :: "view \<Rightarrow> direction \<Rightarrow> int \<Rightarrow> int \<times> scrollToOptions option" where
  "handleSwipe w direction prevIndex =
     (let newIndex =
        (if direction = NEXT \<and> prevIndex < int (length COLORS) - 1 then prevIndex + 1
         else if direction = PREV \<and> prevIndex > 0 then prevIndex - 1
         else prevIndex)
      in (newIndex,
          if newIndex \<noteq> prevIndex then
            (if containerRef w
             then Some \<lparr>top_px = newIndex * innerHeight w, behavior = ''smooth''\<rparr>
             else None)
          else None))"

text \<open>The same function of the video feed, over \<^verbatim>\<open>VIDEOS\<close>.\<close>

definition handleSwipe_video :: "view \<Rightarrow> direction \<Rightarrow> int \<Rightarrow> int \<times> scrollToOptions option" where
  "handleSwipe_video w direction prevIndex =
     (let newIndex =
        (if direction = NEXT \<and> prevIndex < int (length VIDEOS) - 1 then prevIndex + 1
         else if direction = PREV \<and> prevIndex > 0 then prevIndex - 1
         else prevIndex)
      in (newIndex,
          if newIndex \<noteq> prevIndex then
            (if containerRef w
             then Some \<lparr>top_px = newIndex * innerHeight w, behavior = ''smooth''\<rparr>
             else None)
          else None))"

text \<open>\<^verbatim>\<open>useState(0)\<close>: the active index when the application starts.\<close>

definition initialIndex :: int where
  "initialIndex = 0"

text \<open>The index after a sequence of swipes, each seeing the page as it then is.\<close>

fun feedRun :: "(view \<times> direction) list \<Rightarrow> int \<Rightarrow> int" where
  "feedRun [] i = i"
| "feedRun ((w, d) # rest) i = feedRun rest (fst (handleSwipe w d i))"

fun feedRun_video :: "(view \<times> direction) list \<Rightarrow> int \<Rightarrow> int" where
  "feedRun_video [] i = i"
| "feedRun_video ((w, d) # rest) i = feedRun_video rest (fst (handleSwipe_video w d i))"

text \<open>The invariant of the feed state, for a feed of \<open>n\<close> panels.\<close>

definition feedInv :: "nat \<Rightarrow> int \<Rightarrow> bool" where
  "feedInv n i = (0 \<le> i \<and> i < int n)"

subsection \<open>The specification's wording of the decision\<close>

text \<open>
  The specification words the decision of a step over a parameter: with
  \<open>delta = sample.y - lastY\<close>, if \<open>delta < -THRESHOLD\<close> emit \<open>NEXT\<close>, else if
  \<open>delta > THRESHOLD\<close> emit \<open>PREV\<close>, else no event. This definition follows those
  words, not the code; it is what the code is compared with.
\<close>

definition specDecision :: "real \<Rightarrow> real \<Rightarrow> direction list" where
  "specDecision THRESHOLD delta =
     (if delta < - THRESHOLD then [NEXT]
      else if delta > THRESHOLD then [PREV]
      else [])"

section \<open>Properties\<close>

subsection \<open>Shared facts\<close>

lemma threshold_pos: "0 < threshold"
  by (simp add: threshold_def)

lemma panel_counts: "length COLORS = 4" "length VIDEOS = 4"
  by (simp_all add: COLORS_def VIDEOS_def)

text \<open>Under its guards, one call of \<^verbatim>\<open>predictWebcam\<close> is one step of the debouncer.\<close>

lemma predictWebcam_active:
  assumes "isMounted s" "gestureRecognizer f" "videoRef f" "canvasRef f"
    and "0 < videoWidth f" "ctx f" "debugMode" "wristY (landmarks f) = Inr smp"
  shows "predictWebcam v debugMode f s =
           Inr (fst (swipeStep v smp s), \<lparr>swipes = snd (swipeStep v smp s), requested = True\<rparr>)"
  using assms by (simp add: predictWebcam_def split: prod.splits)

text \<open>While the lock is set, a step only moves the baseline.\<close>

lemma swipeStep_cooling:
  "isCooldownRef s \<Longrightarrow> swipeStep v smp s = (s\<lparr>lastYRef := smp\<rparr>, [])"
  by (simp add: swipeStep_def split: option.splits)

lemma swipeSteps_cooling:
  "isCooldownRef s \<Longrightarrow>
     snd (swipeSteps v smps s) = [] \<and> isCooldownRef (fst (swipeSteps v smps s))"
  by (induction smps arbitrary: s) (simp_all add: swipeStep_cooling split: prod.splits)

lemma predictWebcam_cooling:
  "isCooldownRef s \<Longrightarrow> swipesOf (predictWebcam v debugMode f s) = []"
  by (simp add: predictWebcam_def swipesOf_def swipeStep_cooling split: sum.splits)

text \<open>The feed invariant is kept by a swipe, hence by every sequence of swipes.\<close>

lemma handleSwipe_inv:
  "feedInv (length COLORS) i \<Longrightarrow> feedInv (length COLORS) (fst (handleSwipe w d i))"
  by (auto simp: handleSwipe_def feedInv_def Let_def)

lemma handleSwipe_video_inv:
  "feedInv (length VIDEOS) i \<Longrightarrow> feedInv (length VIDEOS) (fst (handleSwipe_video w d i))"
  by (auto simp: handleSwipe_video_def feedInv_def Let_def)

lemma feedRun_inv:
  "feedInv (length COLORS) i \<Longrightarrow> feedInv (length COLORS) (feedRun ds i)"
  by (induction ds i rule: feedRun.induct) (simp_all add: handleSwipe_inv)

lemma feedRun_video_inv:
  "feedInv (length VIDEOS) i \<Longrightarrow> feedInv (length VIDEOS) (feedRun_video ds i)"
  by (induction ds i rule: feedRun_video.induct) (simp_all add: handleSwipe_video_inv)

lemma initial_inv:
  "feedInv (length COLORS) initialIndex" "feedInv (length VIDEOS) initialIndex"
  by (simp_all add: feedInv_def initialIndex_def panel_counts)


text \<open>After a timer callback whose effect run is still mounted, the next call of
  \<^verbatim>\<open>predictWebcam\<close> sends nothing, whichever run it belongs to: it finds no baseline,
  or, its own run cleaned up, it returns at once.\<close>

lemma predictWebcam_after_timeout:
  "swipesOf (predictWebcam v debugMode f (cooldownTimeout True s)) = []"
  by (simp add: predictWebcam_def swipesOf_def cooldownTimeout_def swipeStep_def
      split: sum.splits option.splits)

text \<open>Without a 2D context or with \<open>debugMode\<close> off, a call changes no ref and sends
  nothing; it only asks for the next frame, when it got past its first two tests.\<close>

lemma predictWebcam_gated:
  "\<not> (ctx f \<and> debugMode) \<Longrightarrow>
     predictWebcam v debugMode f s =
       Inr (s, \<lparr>swipes = [],
                requested = (isMounted s \<and> gestureRecognizer f \<and> videoRef f \<and> canvasRef f)\<rparr>)"
  by (auto simp: predictWebcam_def)

lemma frameLoop_debug_off: "frameLoop v False fs s = (s, [], None)"
  by (induction fs) (simp_all add: predictWebcam_gated)

subsection \<open>The debouncer\<close>

text \<open>
  C1. A step with a detected sample, taken while not cooling and with a baseline:
  with \<open>deltaY = currY - lastY\<close>, below \<open>- threshold\<close> it sends exactly one
  \<open>NEXT\<close> and enters cooldown (the lock is set and the expiry scheduled); otherwise,
  above \<open>threshold\<close> it sends exactly one \<open>PREV\<close> and enters cooldown; otherwise it
  sends nothing and stays unlocked. No step sends both directions.
\<close>

theorem swipeStep_emission:
  assumes "\<not> isCooldownRef s" and "lastYRef s = Some lastY"
  shows "(currY - lastY < - threshold \<longrightarrow>
            snd (swipeStep v (Some currY) s) = [NEXT] \<and>
            isCooldownRef (fst (swipeStep v (Some currY) s)) \<and>
            timeouts (fst (swipeStep v (Some currY) s)) = timeouts s @ [cooldownMs v]) \<and>
         (\<not> currY - lastY < - threshold \<and> currY - lastY > threshold \<longrightarrow>
            snd (swipeStep v (Some currY) s) = [PREV] \<and>
            isCooldownRef (fst (swipeStep v (Some currY) s)) \<and>
            timeouts (fst (swipeStep v (Some currY) s)) = timeouts s @ [cooldownMs v]) \<and>
         (\<not> currY - lastY < - threshold \<and> \<not> currY - lastY > threshold \<longrightarrow>
            snd (swipeStep v (Some currY) s) = [] \<and>
            \<not> isCooldownRef (fst (swipeStep v (Some currY) s)) \<and>
            timeouts (fst (swipeStep v (Some currY) s)) = timeouts s) \<and>
         \<not> (NEXT \<in> set (snd (swipeStep v (Some currY) s)) \<and>
            PREV \<in> set (snd (swipeStep v (Some currY) s)))"
  using assms by (simp add: swipeStep_def triggerCooldown_def Let_def)

theorem swipeStep_emission_witness:
  "snd (swipeStep ColorPanels (Some 0.25)
          \<lparr>lastYRef = Some 0.5, isCooldownRef = False, isMounted = True, timeouts = []\<rparr>) = [NEXT]
   \<and> isCooldownRef (fst (swipeStep ColorPanels (Some 0.25)
          \<lparr>lastYRef = Some 0.5, isCooldownRef = False, isMounted = True, timeouts = []\<rparr>))
   \<and> snd (swipeStep ColorPanels (Some 0.75)
          \<lparr>lastYRef = Some 0.5, isCooldownRef = False, isMounted = True, timeouts = []\<rparr>) = [PREV]
   \<and> snd (swipeStep ColorPanels (Some 0.5)
          \<lparr>lastYRef = Some 0.5, isCooldownRef = False, isMounted = True, timeouts = []\<rparr>) = []"
  using
    swipeStep_emission [of "\<lparr>lastYRef = Some 0.5, isCooldownRef = False, isMounted = True, timeouts = []\<rparr>"
      "0.5" "0.25" ColorPanels]
    swipeStep_emission [of "\<lparr>lastYRef = Some 0.5, isCooldownRef = False, isMounted = True, timeouts = []\<rparr>"
      "0.5" "0.75" ColorPanels]
    swipeStep_emission [of "\<lparr>lastYRef = Some 0.5, isCooldownRef = False, isMounted = True, timeouts = []\<rparr>"
      "0.5" "0.5" ColorPanels]
  by (simp add: threshold_def)

text \<open>
  C3. A sample processed while the lock is set sends no swipe, whatever the sample and
  whatever the frame; the lock stays set and no timer is added, so a whole sequence of
  samples processed under the lock sends nothing.
\<close>

theorem no_swipe_while_cooling:
  assumes "isCooldownRef s"
  shows "snd (swipeStep v smp s) = [] \<and>
         isCooldownRef (fst (swipeStep v smp s)) \<and>
         timeouts (fst (swipeStep v smp s)) = timeouts s \<and>
         swipesOf (predictWebcam v debugMode f s) = [] \<and>
         snd (swipeSteps v smps s) = []"
  using assms
  by (simp add: swipeStep_cooling swipeSteps_cooling predictWebcam_cooling)

theorem no_swipe_while_cooling_witness:
  "isCooldownRef \<lparr>lastYRef = Some 0.5, isCooldownRef = True, isMounted = True, timeouts = [1000]\<rparr> \<and>
   snd (swipeStep ColorPanels (Some 0.25)
          \<lparr>lastYRef = Some 0.5, isCooldownRef = True, isMounted = True, timeouts = [1000]\<rparr>) = [] \<and>
   swipesOf (predictWebcam ColorPanels True
          \<lparr>gestureRecognizer = True, videoRef = True, canvasRef = True, videoWidth = 640,
            ctx = True, landmarks = [[0.25]]\<rparr>
          \<lparr>lastYRef = Some 0.5, isCooldownRef = True, isMounted = True, timeouts = [1000]\<rparr>) = []"
  using no_swipe_while_cooling
    [of "\<lparr>lastYRef = Some 0.5, isCooldownRef = True, isMounted = True, timeouts = [1000]\<rparr>"
      ColorPanels "Some 0.25" True
      "\<lparr>gestureRecognizer = True, videoRef = True, canvasRef = True, videoWidth = 640,
        ctx = True, landmarks = [[0.25]]\<rparr>" "[]"]
  by simp

text \<open>
  C4, as the code has it. The timer callback tests the \<^verbatim>\<open>isMounted\<close> of the effect run
  that scheduled it. Run while that effect run is still mounted, it releases the lock
  and clears the baseline; consequently the first sample processed after it sends no
  swipe, whatever its value: a detected sample only becomes the new baseline, with the
  lock left open, and the whole call of \<^verbatim>\<open>predictWebcam\<close> that follows sends nothing,
  for every frame, also when the callback is the oldest pending timer being run. Run
  after its effect run was cleaned up, the callback returns at once and changes
  nothing.
\<close>

theorem cooldown_expiry_reseeds:
  "(mounted \<longrightarrow>
      \<not> isCooldownRef (cooldownTimeout mounted s) \<and>
      lastYRef (cooldownTimeout mounted s) = None \<and>
      swipeStep v (Some currY) (cooldownTimeout mounted s) =
        (s\<lparr>isCooldownRef := False, lastYRef := Some currY\<rparr>, []) \<and>
      swipesOf (predictWebcam v debugMode f (cooldownTimeout mounted s)) = [] \<and>
      (timeouts s \<noteq> [] \<longrightarrow>
         swipesOf (predictWebcam v debugMode f (fireTimeout mounted s)) = [])) \<and>
   (\<not> mounted \<longrightarrow> cooldownTimeout mounted s = s)"
proof (cases mounted)
  case True
  have expiry: "cooldownTimeout True s = s\<lparr>isCooldownRef := False, lastYRef := None\<rparr>"
    by (simp add: cooldownTimeout_def)
  have step: "swipeStep v (Some currY) (cooldownTimeout True s) =
      (s\<lparr>isCooldownRef := False, lastYRef := Some currY\<rparr>, [])"
    by (simp add: expiry swipeStep_def)
  have fired: "swipesOf (predictWebcam v debugMode f (fireTimeout True s)) = []"
    if "timeouts s \<noteq> []"
  proof -
    from that obtain t rest where "timeouts s = t # rest"
      by (cases "timeouts s") auto
    then have "fireTimeout True s = cooldownTimeout True (s\<lparr>timeouts := rest\<rparr>)"
      by (simp add: fireTimeout_def)
    then show ?thesis
      by (simp only: predictWebcam_after_timeout)
  qed
  have flags: "\<not> isCooldownRef (cooldownTimeout True s)" "lastYRef (cooldownTimeout True s) = None"
    by (simp_all add: expiry)
  from True flags step fired predictWebcam_after_timeout [of v debugMode f s]
  show ?thesis
    by simp
next
  case False
  then show ?thesis
    by (simp add: cooldownTimeout_def)
qed

theorem cooldown_expiry_reseeds_witness:
  "swipeStep VideoFeed (Some 0.25)
     (cooldownTimeout True
        \<lparr>lastYRef = Some 0.5, isCooldownRef = True, isMounted = True, timeouts = [1200]\<rparr>) =
     (\<lparr>lastYRef = Some 0.25, isCooldownRef = False, isMounted = True, timeouts = [1200]\<rparr>, []) \<and>
   timeouts \<lparr>lastYRef = Some 0.5, isCooldownRef = True, isMounted = True, timeouts = [1200]\<rparr> \<noteq> [] \<and>
   swipesOf (predictWebcam VideoFeed True
     \<lparr>gestureRecognizer = True, videoRef = True, canvasRef = True, videoWidth = 640,
       ctx = True, landmarks = [[0.25]]\<rparr>
     (fireTimeout True
        \<lparr>lastYRef = Some 0.5, isCooldownRef = True, isMounted = True, timeouts = [1200]\<rparr>)) = [] \<and>
   cooldownTimeout False
     \<lparr>lastYRef = Some 0.5, isCooldownRef = True, isMounted = True, timeouts = [1200]\<rparr> =
     \<lparr>lastYRef = Some 0.5, isCooldownRef = True, isMounted = True, timeouts = [1200]\<rparr>"
  using cooldown_expiry_reseeds
    [of True "\<lparr>lastYRef = Some 0.5, isCooldownRef = True, isMounted = True, timeouts = [1200]\<rparr>"
      VideoFeed "0.25" True
      "\<lparr>gestureRecognizer = True, videoRef = True, canvasRef = True, videoWidth = 640,
        ctx = True, landmarks = [[0.25]]\<rparr>"]
    cooldown_expiry_reseeds
    [of False "\<lparr>lastYRef = Some 0.5, isCooldownRef = True, isMounted = True, timeouts = [1200]\<rparr>"]
  by simp

text \<open>
  C4 as stated fails: the effect ran again during a cooldown, so the pending callback
  belongs to a cleaned-up run. When it runs, the lock is still set and the baseline
  still in place, while the loop of the new run is mounted and goes on under that lock.
\<close>

theorem stale_timeout_keeps_lock:
  "isCooldownRef (cooldownTimeout False
      \<lparr>lastYRef = Some 0.5, isCooldownRef = True, isMounted = True, timeouts = []\<rparr>) \<and>
   lastYRef (cooldownTimeout False
      \<lparr>lastYRef = Some 0.5, isCooldownRef = True, isMounted = True, timeouts = []\<rparr>) = Some 0.5"
  by (simp add: cooldownTimeout_def)

text \<open>
  C6, as the code has it. A step on an absent sample (no hand detected) clears the
  baseline and sends no swipe; it leaves the lock as it was, so a gap inside a cooldown
  window does not end the cooldown.
\<close>

theorem gap_resets_baseline:
  "wristY [] = Inr None \<and>
   swipeStep v None s = (s\<lparr>lastYRef := None\<rparr>, []) \<and>
   lastYRef (fst (swipeStep v None s)) = None \<and>
   isCooldownRef (fst (swipeStep v None s)) = isCooldownRef s \<and>
   snd (swipeStep v None s) = []"
  by (simp add: swipeStep_def wristY_def)

text \<open>C6 as stated fails: after a gap observed under the lock, the lock is still set.\<close>

theorem gap_keeps_cooling:
  "isCooldownRef (fst (swipeStep ColorPanels None
      \<lparr>lastYRef = Some 0.5, isCooldownRef = True, isMounted = True, timeouts = [1000]\<rparr>))"
  by (simp add: swipeStep_def)

text \<open>
  C7, as the code has it. Under the lock, a step on a detected sample sends no swipe
  and leaves the lock and the timers as they were, but it does move the baseline:
  \<open>lastY\<close> becomes the sample's \<open>y\<close>.
\<close>

theorem cooling_step_effect:
  assumes "isCooldownRef s"
  shows "swipeStep v (Some currY) s = (s\<lparr>lastYRef := Some currY\<rparr>, [])"
  using assms by (simp add: swipeStep_def split: option.splits)

theorem cooling_step_effect_witness:
  "isCooldownRef \<lparr>lastYRef = Some 0.5, isCooldownRef = True, isMounted = True, timeouts = [1000]\<rparr> \<and>
   swipeStep ColorPanels (Some 0.25)
      \<lparr>lastYRef = Some 0.5, isCooldownRef = True, isMounted = True, timeouts = [1000]\<rparr> =
   (\<lparr>lastYRef = Some 0.25, isCooldownRef = True, isMounted = True, timeouts = [1000]\<rparr>, [])"
  using cooling_step_effect
    [of "\<lparr>lastYRef = Some 0.5, isCooldownRef = True, isMounted = True, timeouts = [1000]\<rparr>"
      ColorPanels "0.25"]
  by simp

text \<open>C7 as stated fails: a step under the lock changed \<open>lastY\<close> from 0.5 to 0.25.\<close>

theorem cooling_step_moves_baseline:
  "lastYRef (fst (swipeStep ColorPanels (Some 0.25)
      \<lparr>lastYRef = Some 0.5, isCooldownRef = True, isMounted = True, timeouts = [1000]\<rparr>)) = Some 0.25"
  by (simp add: swipeStep_def)

text \<open>
  C8, as the code has it. The threshold is the constant 0.08 written in
  \<^verbatim>\<open>predictWebcam\<close>: the swipes a step sends, taken while not cooling and with a
  baseline, are the specification's decision at \<open>THRESHOLD = 0.08\<close>, and the step has
  no argument that could set another value.
\<close>

theorem threshold_fixed:
  assumes "\<not> isCooldownRef s" and "lastYRef s = Some lastY"
  shows "snd (swipeStep v (Some currY) s) = specDecision 0.08 (currY - lastY)"
  using assms by (simp add: swipeStep_def specDecision_def threshold_def Let_def)

theorem threshold_fixed_witness:
  "snd (swipeStep ColorPanels (Some 0.25)
      \<lparr>lastYRef = Some 0.5, isCooldownRef = False, isMounted = True, timeouts = []\<rparr>)
   = specDecision 0.08 (0.25 - 0.5) \<and> specDecision 0.08 (0.25 - 0.5) = [NEXT]"
  using threshold_fixed
    [of "\<lparr>lastYRef = Some 0.5, isCooldownRef = False, isMounted = True, timeouts = []\<rparr>"
      "0.5" ColorPanels "0.25"]
  by (simp add: specDecision_def)

text \<open>C8 as stated fails: were the threshold configured to 0.5, a move of -0.25 would
  send nothing; the code sends \<open>NEXT\<close>.\<close>

theorem threshold_not_configurable:
  "snd (swipeStep ColorPanels (Some 0.25)
      \<lparr>lastYRef = Some 0.5, isCooldownRef = False, isMounted = True, timeouts = []\<rparr>)
   \<noteq> specDecision 0.5 (0.25 - 0.5)"
  by (simp add: swipeStep_def specDecision_def threshold_def)

text \<open>
  C9. Gesture processing sits under \<^verbatim>\<open>if (ctx && debugMode)\<close>: a call of
  \<^verbatim>\<open>predictWebcam\<close> without a 2D context or with \<open>debugMode\<close> off returns normally,
  changes no ref (the baseline is neither seeded, moved nor cleared) and sends no swipe.
  With \<open>debugMode\<close> off the per-frame loop, on every sequence of frames, ends in the
  state it started in, having sent nothing and thrown nothing.
\<close>

theorem gesture_processing_gated:
  "(\<not> (ctx f \<and> debugMode) \<longrightarrow>
      (\<exists>rq. predictWebcam v debugMode f s = Inr (s, \<lparr>swipes = [], requested = rq\<rparr>))) \<and>
   frameLoop v False fs s = (s, [], None)"
  by (simp add: predictWebcam_gated frameLoop_debug_off)

theorem gesture_processing_gated_witness:
  "\<not> (ctx \<lparr>gestureRecognizer = True, videoRef = True, canvasRef = True, videoWidth = 640,
            ctx = True, landmarks = [[0.25]]\<rparr> \<and> False) \<and>
   predictWebcam ColorPanels False
     \<lparr>gestureRecognizer = True, videoRef = True, canvasRef = True, videoWidth = 640,
       ctx = True, landmarks = [[0.25]]\<rparr>
     \<lparr>lastYRef = Some 0.5, isCooldownRef = False, isMounted = True, timeouts = []\<rparr> =
   Inr (\<lparr>lastYRef = Some 0.5, isCooldownRef = False, isMounted = True, timeouts = []\<rparr>,
        \<lparr>swipes = [], requested = True\<rparr>)"
  using gesture_processing_gated
    [of "\<lparr>gestureRecognizer = True, videoRef = True, canvasRef = True, videoWidth = 640,
       ctx = True, landmarks = [[0.25]]\<rparr>" False ColorPanels
      "\<lparr>lastYRef = Some 0.5, isCooldownRef = False, isMounted = True, timeouts = []\<rparr>"]
  by (simp add: predictWebcam_def)

text \<open>
  The scenarios of the specification, run on the code from the initial refs: the
  samples 0.5, 0.5, 0.3 send one \<open>NEXT\<close>, at the third sample; 0.5, 0.52 send nothing;
  0.5, a gap, 0.3 send nothing.
\<close>

lemma scenario_next_once:
  "snd (swipeSteps ColorPanels [Some 0.5, Some 0.5]
      \<lparr>lastYRef = None, isCooldownRef = False, isMounted = True, timeouts = []\<rparr>) = []"
  "snd (swipeSteps ColorPanels [Some 0.5, Some 0.5, Some 0.3]
      \<lparr>lastYRef = None, isCooldownRef = False, isMounted = True, timeouts = []\<rparr>) = [NEXT]"
  by (simp_all add: swipeStep_def triggerCooldown_def threshold_def)

lemma scenario_below_threshold:
  "snd (swipeSteps ColorPanels [Some 0.5, Some 0.52]
      \<lparr>lastYRef = None, isCooldownRef = False, isMounted = True, timeouts = []\<rparr>) = []"
  by (simp add: swipeStep_def triggerCooldown_def threshold_def)

lemma scenario_gap:
  "snd (swipeSteps ColorPanels [Some 0.5, None, Some 0.3]
      \<lparr>lastYRef = None, isCooldownRef = False, isMounted = True, timeouts = []\<rparr>) = []"
  by (simp add: swipeStep_def triggerCooldown_def threshold_def)

subsection \<open>The feed controller\<close>

text \<open>
  C2. The feed invariant \<open>0 \<le> activeIndex < panelCount\<close>, with four panels in either
  variant: it holds of the index the application starts with, a swipe in either
  direction from an index that satisfies it gives an index that satisfies it, and so it
  holds after every sequence of swipes from the start.
\<close>

theorem feed_index_in_range:
  "length COLORS = 4 \<and> length VIDEOS = 4 \<and>
   feedInv (length COLORS) initialIndex \<and> feedInv (length VIDEOS) initialIndex \<and>
   (feedInv (length COLORS) i \<longrightarrow> feedInv (length COLORS) (fst (handleSwipe w d i))) \<and>
   (feedInv (length VIDEOS) i \<longrightarrow> feedInv (length VIDEOS) (fst (handleSwipe_video w d i))) \<and>
   feedInv (length COLORS) (feedRun ds initialIndex) \<and>
   feedInv (length VIDEOS) (feedRun_video ds initialIndex)"
  using panel_counts initial_inv handleSwipe_inv [of i w d] handleSwipe_video_inv [of i w d]
    feedRun_inv [OF initial_inv(1), of ds] feedRun_video_inv [OF initial_inv(2), of ds]
  by blast

theorem feed_index_in_range_witness:
  "feedInv (length COLORS) 3 \<and>
   feedInv (length COLORS) (fst (handleSwipe \<lparr>containerRef = True, innerHeight = 800\<rparr> NEXT 3)) \<and>
   fst (handleSwipe \<lparr>containerRef = True, innerHeight = 800\<rparr> NEXT 3) = 3 \<and>
   feedInv (length VIDEOS) 0 \<and>
   feedInv (length VIDEOS) (fst (handleSwipe_video \<lparr>containerRef = True, innerHeight = 800\<rparr> PREV 0)) \<and>
   fst (handleSwipe_video \<lparr>containerRef = True, innerHeight = 800\<rparr> PREV 0) = 0"
  using feed_index_in_range [of 3 "\<lparr>containerRef = True, innerHeight = 800\<rparr>" NEXT "[]"]
    feed_index_in_range [of 0 "\<lparr>containerRef = True, innerHeight = 800\<rparr>" PREV "[]"]
  by (simp add: feedInv_def handleSwipe_def handleSwipe_video_def panel_counts)

text \<open>
  C5, as the code has it, for both variants. \<open>NEXT\<close> increments the index exactly when
  it is below \<open>panelCount - 1\<close> and otherwise leaves it; \<open>PREV\<close> decrements it exactly
  when it is above 0 and otherwise leaves it. A scroll request is made exactly when the
  index changed and \<^verbatim>\<open>containerRef.current\<close> is set, and it asks for the offset
  \<open>newIndex * innerHeight\<close>, smoothly; an unchanged index makes no request.
\<close>

theorem handleSwipe_effect:
  "(fst (handleSwipe w NEXT i) = i + 1) = (i < int (length COLORS) - 1) \<and>
   (fst (handleSwipe w NEXT i) = i) = (\<not> i < int (length COLORS) - 1) \<and>
   (fst (handleSwipe w PREV i) = i - 1) = (0 < i) \<and>
   (fst (handleSwipe w PREV i) = i) = (\<not> 0 < i) \<and>
   snd (handleSwipe w d i) =
     (if fst (handleSwipe w d i) \<noteq> i \<and> containerRef w
      then Some \<lparr>top_px = fst (handleSwipe w d i) * innerHeight w, behavior = ''smooth''\<rparr>
      else None) \<and>
   (fst (handleSwipe_video w NEXT i) = i + 1) = (i < int (length VIDEOS) - 1) \<and>
   (fst (handleSwipe_video w NEXT i) = i) = (\<not> i < int (length VIDEOS) - 1) \<and>
   (fst (handleSwipe_video w PREV i) = i - 1) = (0 < i) \<and>
   (fst (handleSwipe_video w PREV i) = i) = (\<not> 0 < i) \<and>
   snd (handleSwipe_video w d i) =
     (if fst (handleSwipe_video w d i) \<noteq> i \<and> containerRef w
      then Some \<lparr>top_px = fst (handleSwipe_video w d i) * innerHeight w, behavior = ''smooth''\<rparr>
      else None)"
  by (simp add: handleSwipe_def handleSwipe_video_def Let_def)

text \<open>C5 as stated fails: with the container ref unset, \<open>NEXT\<close> at index 0 moves the
  index to 1 and makes no scroll request.\<close>

theorem handleSwipe_unset_container:
  "fst (handleSwipe \<lparr>containerRef = False, innerHeight = 800\<rparr> NEXT 0) = 1 \<and>
   snd (handleSwipe \<lparr>containerRef = False, innerHeight = 800\<rparr> NEXT 0) = None"
  by (simp add: handleSwipe_def panel_counts)

text \<open>
  C10. The two variants have the same feed controller: both lists have four panels, and
  for every page, direction and previous index the two \<^verbatim>\<open>handleSwipe\<close> give the same
  new index and the same scroll request, hence a request under the same condition.
\<close>

theorem handleSwipe_variants_agree:
  "handleSwipe w d i = handleSwipe_video w d i \<and> length COLORS = 4 \<and> length VIDEOS = 4"
  by (simp add: handleSwipe_def handleSwipe_video_def panel_counts)

end
